theory Spec2Isabelle
  imports Main "HOL-Library.Sublist"
begin

section \<open>RepoRover: the crawl, normalise and record pipeline of RepoRover.py\<close>

text \<open>
  The program is glue over three libraries (requests, BeautifulSoup, NLTK) and the csv
  module. Library calls whose code is not part of the repository are parameters of the
  model, collected in the record \<open>env\<close>; everything RepoRover.py itself does (branches,
  try/except, the retry recursion, the dictionary it builds, the call of executor.map) is
  translated line by line. A string is the list of its code points, all below 256 (the
  Latin-1 range); \<open>lower\<close> and \<open>strip\<close> are \<open>str.lower\<close> and \<open>str.strip\<close> on that range.
\<close>

subsection \<open>Module constants (lines 15 to 20)\<close>

type_synonym url = string

definition base_url :: string where
  "base_url = ''https://github.com''"

definition max_workers :: nat where
  "max_workers = 4"

definition headers :: "string list" where
  "headers = [''Processed At'', ''Repository Name'', ''Homepage URL'',
              ''Processed Readme.MD Content'']"

text \<open>
  The names bound in the module's global namespace when a function body runs: the
  imports of lines 1 to 11, the constants of lines 15 to 20 and the six functions.
\<close>

definition module_globals :: "string list" where
  "module_globals =
     [''datetime'', ''concurrent'', ''os'', ''BeautifulSoup'', ''csv'', ''logging'',
      ''requests'', ''PorterStemmer'', ''WordNetLemmatizer'', ''word_tokenize'',
      ''stopwords'', ''base_url'', ''csv_file_path'', ''max_workers'', ''headers'',
      ''get_repo_urls'', ''get_readme_content'', ''preprocess_content'', ''write_to_csv'',
      ''process_repository'', ''main'']"

text \<open>
  Line 1 is \<open>import datetime\<close>: the name \<open>datetime\<close> is the module, whose public
  attributes are these (the class \<open>datetime.datetime\<close> has \<open>now\<close>, the module has not).
\<close>

definition datetime_module_attrs :: "string list" where
  "datetime_module_attrs =
     [''MAXYEAR'', ''MINYEAR'', ''UTC'', ''date'', ''datetime'', ''datetime_CAPI'',
      ''time'', ''timedelta'', ''timezone'', ''tzinfo'']"

subsection \<open>Exceptions, responses, log records\<close>

datatype exn =
    RequestException
  | NameError
  | AttributeError
  | TypeError
  | KeyError
  | ValueError
  | FileNotFoundError

record response =
  status_code :: int
  resp_text :: string
  resp_content :: string

datatype level = INFO | WARNING | ERROR

text \<open>One constructor for each message the program logs, with the values it interpolates.\<close>

datatype message =
    FailedToFetch url int
  | ErrorProcessingPage url exn
  | ErrorRetrievingReadme url
  | NoReadmeFound url
  | ErrorAccessingRepository url
  | RequestErrorProcessingRepository url exn
  | ErrorProcessingRepository url exn
  | SkippingDuplicate string
  | ProcessedRepository string
  | NoRepositoryUrlsFound
  | ScouringCompleted

subsection \<open>The libraries and the world\<close>

text \<open>
  \<open>net u n\<close> is what the \<open>n\<close>-th call of \<open>requests.get\<close> on \<open>u\<close> does: it raises or
  returns a response. The three HTML queries are the BeautifulSoup calls of lines 41, 69
  and 177: the \<open>href\<close> values of the anchors selected on the listing page, the anchor with
  id \<open>readme-permalink\<close> (\<open>None\<close>: no such anchor, \<open>Some None\<close>: an anchor without
  \<open>href\<close>), and the text of the \<open>h1\<close> element of class \<open>public\<close>. The remaining fields
  are \<open>get_text\<close>, NLTK's tokenizer, stopword list, lemmatizer and stemmer, the
  string \<open>strftime\<close> would format, and the two sides of the csv module:
  \<open>csv_writerow row\<close> is the text \<open>writerow\<close> emits for \<open>row\<close>, line terminator included,
  and \<open>csv_reader text\<close> is the list of rows \<open>csv.reader\<close> yields from a file of content
  \<open>text\<close> opened as line 218 opens it (text mode, universal newlines).
\<close>

record env =
  net :: "url \<Rightarrow> nat \<Rightarrow> exn + response"
  select_repo_links :: "string \<Rightarrow> string list"
  find_readme_permalink :: "string \<Rightarrow> string option option"
  find_h1_public :: "string \<Rightarrow> string option"
  get_text :: "string \<Rightarrow> string"
  word_tokenize :: "string \<Rightarrow> string list"
  stop_words :: "string list"
  lemmatize :: "string \<Rightarrow> string"
  stem :: "string \<Rightarrow> string"
  timestamp :: string
  csv_writerow :: "string list \<Rightarrow> string"
  csv_reader :: "string \<Rightarrow> string list list"

text \<open>
  The state a run changes: the output file (\<open>None\<close> while it does not exist, otherwise
  its content, character by character), the number of requests sent to each URL, the
  log, and the seconds spent in \<open>time.sleep\<close>.
\<close>

record world =
  csv_file :: "string option"
  hits :: "url \<Rightarrow> nat"
  logged :: "(level \<times> message) list"
  slept :: int

type_synonym 'a comp = "world \<Rightarrow> (exn + 'a) \<times> world"

definition logging :: "level \<Rightarrow> message \<Rightarrow> world \<Rightarrow> world" where
  "logging l m w = w\<lparr>logged := logged w @ [(l, m)]\<rparr>"

definition requests_get :: "env \<Rightarrow> url \<Rightarrow> response comp" where
  "requests_get e u w = (net e u (hits w u), w\<lparr>hits := (hits w)(u := Suc (hits w u))\<rparr>)"

text \<open>
  \<open>time.sleep(secs)\<close> at line 84 first looks the name \<open>time\<close> up in the module's globals.
\<close>

definition time_sleep :: "int \<Rightarrow> unit comp" where
  "time_sleep secs w =
     (if ''time'' \<in> set module_globals then (Inr (), w\<lparr>slept := slept w + secs\<rparr>)
      else (Inl NameError, w))"

text \<open>
  \<open>datetime.now().strftime(...)\<close> at line 189 looks the attribute \<open>now\<close> up in the module
  \<open>datetime\<close>.
\<close>

definition datetime_now :: "env \<Rightarrow> string comp" where
  "datetime_now e w =
     (if ''now'' \<in> set datetime_module_attrs then (Inr (timestamp e), w)
      else (Inl AttributeError, w))"

subsection \<open>Link Extractor: \<open>get_repo_urls\<close> (lines 26 to 48)\<close>

text \<open>
  The body of the \<open>try\<close>: \<open>Some urls\<close> when line 42 returns, \<open>None\<close> when control falls
  through to line 48.
\<close>

definition get_repo_urls_try :: "env \<Rightarrow> url \<Rightarrow> url list option comp" where
  "get_repo_urls_try e page_url w =
     (case requests_get e page_url w of
        (Inl x, w1) \<Rightarrow> (Inl x, w1)
      | (Inr response, w1) \<Rightarrow>
          if status_code response = 200
          then (Inr (Some (map (\<lambda>href. base_url @ href)
                             (select_repo_links e (resp_text response)))), w1)
          else (Inr None, logging WARNING (FailedToFetch page_url (status_code response)) w1))"

definition get_repo_urls :: "env \<Rightarrow> url \<Rightarrow> url list comp" where
  "get_repo_urls e page_url w =
     (case get_repo_urls_try e page_url w of
        (Inl x, w1) \<Rightarrow> (Inr [], logging ERROR (ErrorProcessingPage page_url x) w1)
      | (Inr (Some urls), w1) \<Rightarrow> (Inr urls, w1)
      | (Inr None, w1) \<Rightarrow> (Inr [], w1))"

subsection \<open>Content Fetcher: \<open>get_readme_content\<close> (lines 51 to 95)\<close>

text \<open>
  Lines 66 to 81, after a 200 on the repository page. A BeautifulSoup tag is always true,
  so line 71 only tests that the anchor exists; \<open>readme_link['href']\<close> raises
  \<open>KeyError\<close> when the anchor has no such attribute. \<open>Some t\<close> is the return of line 77,
  \<open>None\<close> the fall through to line 95.
\<close>

definition fetch_readme :: "env \<Rightarrow> url \<Rightarrow> response \<Rightarrow> string option option comp" where
  "fetch_readme e repo_url response w =
     (case find_readme_permalink e (resp_content response) of
        None \<Rightarrow> (Inr None, logging INFO (NoReadmeFound repo_url) w)
      | Some None \<Rightarrow> (Inl KeyError, w)
      | Some (Some href) \<Rightarrow>
          (case requests_get e (base_url @ href) w of
             (Inl x, w1) \<Rightarrow> (Inl x, w1)
           | (Inr readme_response, w1) \<Rightarrow>
               if status_code readme_response = 200
               then (Inr (Some (Some (resp_text readme_response))), w1)
               else (Inr None, logging WARNING (ErrorRetrievingReadme repo_url) w1)))"

text \<open>The two handlers of lines 89 to 93 and the final \<open>return None\<close> of line 95.\<close>

definition readme_handlers :: "url \<Rightarrow> (exn + string option option) \<times> world
    \<Rightarrow> (exn + string option) \<times> world" where
  "readme_handlers repo_url r =
     (case r of
        (Inl RequestException, w) \<Rightarrow>
          (Inr None, logging ERROR (RequestErrorProcessingRepository repo_url RequestException) w)
      | (Inl x, w) \<Rightarrow> (Inr None, logging ERROR (ErrorProcessingRepository repo_url x) w)
      | (Inr (Some v), w) \<Rightarrow> (Inr v, w)
      | (Inr None, w) \<Rightarrow> (Inr None, w))"

text \<open>
  The value is Python's: \<open>Some t\<close> for a string, \<open>None\<close> for \<open>None\<close>. The recursive call of
  line 85 sits inside the \<open>try\<close>, after the sleep.
\<close>

function get_readme_content :: "env \<Rightarrow> url \<Rightarrow> int \<Rightarrow> string option comp" where
  "get_readme_content e repo_url retries w =
     readme_handlers repo_url
       (case requests_get e repo_url w of
          (Inl x, w1) \<Rightarrow> (Inl x, w1)
        | (Inr response, w1) \<Rightarrow>
            if status_code response = 200 then fetch_readme e repo_url response w1
            else if retries > 0 then
              (case time_sleep 1 w1 of
                 (Inl x, w2) \<Rightarrow> (Inl x, w2)
               | (Inr u, w2) \<Rightarrow>
                   (case get_readme_content e repo_url (retries - 1) w2 of
                      (Inl x, w3) \<Rightarrow> (Inl x, w3)
                    | (Inr v, w3) \<Rightarrow> (Inr (Some v), w3)))
            else (Inr None, logging WARNING (ErrorAccessingRepository repo_url) w1))"
  by pat_completeness auto
termination
  by (relation "measure (\<lambda>(e, repo_url, retries, w). nat retries)") auto

declare get_readme_content.simps [simp del]

subsection \<open>Text Normalizer: \<open>preprocess_content\<close> (lines 98 to 140)\<close>

text \<open>
  The cased capitals below 256 are \<open>A\<close> to \<open>Z\<close> (65 to 90) and the accented capitals 192
  to 222 without the multiplication sign 215; the small letter is 32 further on.
\<close>

definition lower_char :: "char \<Rightarrow> char" where
  "lower_char c =
     (let n = (of_char c :: nat) in
      if (65 \<le> n \<and> n \<le> 90) \<or> (192 \<le> n \<and> n \<le> 222 \<and> n \<noteq> 215)
      then char_of (n + 32) else c)"

definition lower :: "string \<Rightarrow> string" where
  "lower s = map lower_char s"

fun join_space :: "string list \<Rightarrow> string" where
  "join_space [] = []"
| "join_space [t] = t"
| "join_space (t # ts) = t @ '' '' @ join_space ts"

text \<open>Lines 115 to 126: lowercase, strip the markup, tokenize, drop the stopwords.\<close>

definition filtered_tokens :: "env \<Rightarrow> string \<Rightarrow> string list" where
  "filtered_tokens e content =
     (let preprocessed_content = lower content;
          preprocessed_content = get_text e preprocessed_content;
          tokens = word_tokenize e preprocessed_content
      in filter (\<lambda>token. token \<notin> set (stop_words e)) tokens)"

text \<open>Lines 130 to 135: lemmatize when \<open>custom_processing\<close> is set, stem otherwise.\<close>

definition processed_tokens :: "env \<Rightarrow> string \<Rightarrow> bool \<Rightarrow> string list" where
  "processed_tokens e content custom_processing =
     (if custom_processing then map (lemmatize e) (filtered_tokens e content)
      else map (stem e) (filtered_tokens e content))"

definition preprocess_content :: "env \<Rightarrow> string \<Rightarrow> bool \<Rightarrow> string" where
  "preprocess_content e content custom_processing =
     join_space (processed_tokens e content custom_processing)"

subsection \<open>Record Writer: \<open>write_to_csv\<close> (lines 143 to 152)\<close>

text \<open>
  \<open>data\<close> is a Python dictionary with string keys and values, in insertion order
  (its keys are distinct).
  \<open>open(csv_file_path, "a", newline="")\<close> creates a missing file, never truncates, and
  puts what is written after the last character of the file, untranslated.
  \<open>DictWriter.writerow\<close> raises \<open>ValueError\<close> for a key that is not a field name
  (\<open>extrasaction\<close> is left at \<open>raise\<close>), and otherwise writes the values in the order
  of \<open>fieldnames\<close>, the empty string for a missing key.
\<close>

type_synonym pydict = "(string \<times> string) list"

definition dict_to_list :: "pydict \<Rightarrow> string list" where
  "dict_to_list data =
     map (\<lambda>key. case map_of data key of Some v \<Rightarrow> v | None \<Rightarrow> []) headers"

text \<open>The content of the file once it is open for appending.\<close>

definition open_append :: "world \<Rightarrow> string" where
  "open_append w = (case csv_file w of None \<Rightarrow> [] | Some content \<Rightarrow> content)"

definition write_to_csv :: "env \<Rightarrow> pydict \<Rightarrow> unit comp" where
  "write_to_csv e data w =
     (let content = open_append w in
      if \<exists>key \<in> set (map fst data). key \<notin> set headers
      then (Inl ValueError, w\<lparr>csv_file := Some content\<rparr>)
      else (Inr (), w\<lparr>csv_file := Some (content @ csv_writerow e (dict_to_list data))\<rparr>))"

subsection \<open>Prior records: \<open>csv.DictReader\<close> (lines 216 to 221)\<close>

text \<open>
  \<open>DictReader\<close> works on the rows \<open>csv.reader\<close> yields.
  A row read by \<open>DictReader\<close> is a dictionary whose keys are the field names of the
  first row, or \<open>None\<close> (the \<open>restkey\<close>) for the surplus fields of a long row; a value
  is a string, \<open>None\<close> (the \<open>restval\<close>) for a field a short row lacks, or the list of
  the surplus fields. Blank rows are skipped.
\<close>

datatype cell = Str string | NoneVal | Rest "string list"

type_synonym row_dict = "(string option \<times> cell) list"

fun dict_set :: "'k \<Rightarrow> 'v \<Rightarrow> ('k \<times> 'v) list \<Rightarrow> ('k \<times> 'v) list" where
  "dict_set k v [] = [(k, v)]"
| "dict_set k v ((k', v') # d) =
     (if k = k' then (k, v) # d else (k', v') # dict_set k v d)"

definition dict_reader_row :: "string list \<Rightarrow> string list \<Rightarrow> row_dict" where
  "dict_reader_row fieldnames row =
     (let d = fold (\<lambda>(k, v). dict_set (Some k) (Str v)) (zip fieldnames row) [];
          lf = length fieldnames;
          lr = length row
      in if lf < lr then dict_set None (Rest (drop lf row)) d
         else fold (\<lambda>key. dict_set (Some key) NoneVal) (drop lr fieldnames) d)"

fun dict_reader :: "string list list \<Rightarrow> row_dict list" where
  "dict_reader [] = []"
| "dict_reader (fieldnames # rows) =
     map (dict_reader_row fieldnames) (filter (\<lambda>row. row \<noteq> []) rows)"

subsection \<open>Per-repository pipeline: \<open>process_repository\<close> (lines 155 to 197)\<close>

text \<open>
  \<open>existing_data\<close> is untyped in the source: the docstring announces a list of row
  dictionaries, \<open>main\<close> hands over what \<open>executor.map\<close> pairs with the URL. Iterating a list
  yields its rows, iterating a dictionary yields its keys; \<open>row["Repository Name"]\<close> looks
  the key up in a dictionary (\<open>KeyError\<close> when absent) and raises \<open>TypeError\<close> on a string
  or on \<open>None\<close>.
\<close>

datatype pyobj = PyList "row_dict list" | PyDict row_dict

datatype item = ItemDict row_dict | ItemKey "string option"

fun iter :: "pyobj \<Rightarrow> item list" where
  "iter (PyList rows) = map ItemDict rows"
| "iter (PyDict d) = map (\<lambda>(k, v). ItemKey k) d"

fun subscript :: "item \<Rightarrow> string \<Rightarrow> exn + cell" where
  "subscript (ItemDict d) key =
     (case map_of d (Some key) of None \<Rightarrow> Inl KeyError | Some c \<Rightarrow> Inr c)"
| "subscript (ItemKey k) key = Inl TypeError"

fun str_eq_cell :: "string \<Rightarrow> cell \<Rightarrow> bool" where
  "str_eq_cell s (Str t) = (s = t)"
| "str_eq_cell s NoneVal = False"
| "str_eq_cell s (Rest ts) = False"

text \<open>
  Line 180: \<open>any\<close> over the generator stops at the first true comparison and at the
  first exception.
\<close>

fun any_duplicate :: "string \<Rightarrow> item list \<Rightarrow> exn + bool" where
  "any_duplicate repo_name [] = Inr False"
| "any_duplicate repo_name (row # rows) =
     (case subscript row ''Repository Name'' of
        Inl x \<Rightarrow> Inl x
      | Inr c \<Rightarrow> if str_eq_cell repo_name c then Inr True else any_duplicate repo_name rows)"

text \<open>The characters below 256 for which \<open>str.isspace\<close> holds, which \<open>strip\<close> removes.\<close>

definition is_space :: "char \<Rightarrow> bool" where
  "is_space c = (c \<in> set [CHR '' '', CHR 0x09, CHR 0x0A, CHR 0x0B, CHR 0x0C, CHR 0x0D,
                            CHR 0x1C, CHR 0x1D, CHR 0x1E, CHR 0x1F, CHR 0x85, CHR 0xA0])"

definition strip :: "string \<Rightarrow> string" where
  "strip s = rev (dropWhile is_space (rev (dropWhile is_space s)))"

text \<open>Lines 184 to 197, once the name is known not to be a duplicate.\<close>

definition record_repository :: "env \<Rightarrow> url \<Rightarrow> string \<Rightarrow> string \<Rightarrow> unit comp" where
  "record_repository e repo_url readme_content repo_name w =
     (let preprocessed_content = preprocess_content e readme_content True in
      case datetime_now e w of
        (Inl x, w1) \<Rightarrow> (Inl x, w1)
      | (Inr processed_at, w1) \<Rightarrow>
          (let data = [(''Processed At'', processed_at),
                       (''Repository Name'', repo_name),
                       (''Homepage URL'', repo_url),
                       (''Processed Readme.MD Content'', preprocessed_content)]
           in case write_to_csv e data w1 of
                (Inl x, w2) \<Rightarrow> (Inl x, w2)
              | (Inr u, w2) \<Rightarrow> (Inr (), logging INFO (ProcessedRepository repo_name) w2)))"

text \<open>
  \<open>get_readme_content\<close> is called with its default budget of 3. Line 172 is false for
  \<open>None\<close> and for the empty string. Line 177 takes \<open>.text\<close> of what \<open>soup.find\<close>
  returned, which is \<open>None\<close> when no \<open>h1\<close> of class \<open>public\<close> exists.
\<close>

definition process_repository :: "env \<Rightarrow> url \<Rightarrow> pyobj \<Rightarrow> unit comp" where
  "process_repository e repo_url existing_data w =
     (case get_readme_content e repo_url 3 w of
        (Inl x, w1) \<Rightarrow> (Inl x, w1)
      | (Inr None, w1) \<Rightarrow> (Inr (), w1)
      | (Inr (Some readme_content), w1) \<Rightarrow>
          if readme_content = [] then (Inr (), w1)
          else
            (case find_h1_public e readme_content of
               None \<Rightarrow> (Inl AttributeError, w1)
             | Some h1_text \<Rightarrow>
                 (let repo_name = strip h1_text in
                  case any_duplicate repo_name (iter existing_data) of
                    Inl x \<Rightarrow> (Inl x, w1)
                  | Inr True \<Rightarrow> (Inr (), logging INFO (SkippingDuplicate repo_name) w1)
                  | Inr False \<Rightarrow> record_repository e repo_url readme_content repo_name w1)))"

subsection \<open>Orchestrator: \<open>main\<close> (lines 200 to 238)\<close>

text \<open>
  \<open>executor.map(fn, xs, ys)\<close> submits \<open>fn(x, y)\<close> for every pair of \<open>zip(xs, ys)\<close>; a
  future keeps what its call returned or raised, and nothing is raised in the caller
  unless it iterates the results, which \<open>main\<close> does not. Leaving the \<open>with\<close> block
  waits for all futures. The model runs the tasks one after the other in submission
  order, one of the schedules a pool of \<open>max_workers\<close> threads admits, and returns the
  outcomes held by the futures.
\<close>

fun run_tasks :: "('a \<Rightarrow> 'b \<Rightarrow> 'c comp) \<Rightarrow> ('a \<times> 'b) list \<Rightarrow> world
    \<Rightarrow> (exn + 'c) list \<times> world" where
  "run_tasks fn [] w = ([], w)"
| "run_tasks fn ((x, y) # ps) w =
     (case fn x y w of
        (r, w1) \<Rightarrow> (case run_tasks fn ps w1 of (rs, w2) \<Rightarrow> (r # rs, w2)))"

definition executor_map :: "('a \<Rightarrow> 'b \<Rightarrow> 'c comp) \<Rightarrow> 'a list \<Rightarrow> 'b list \<Rightarrow> world
    \<Rightarrow> (exn + 'c) list \<times> world" where
  "executor_map fn xs ys w = run_tasks fn (zip xs ys) w"

definition explore_page_url :: url where
  "explore_page_url = ''https://github.com/explore''"

text \<open>
  Lines 211 to 214: create the file when it does not exist; \<open>writeheader\<close> writes the
  field names as a row.
\<close>

definition ensure_csv_file :: "env \<Rightarrow> world \<Rightarrow> world" where
  "ensure_csv_file e w =
     (if csv_file w = None then w\<lparr>csv_file := Some (csv_writerow e headers)\<rparr> else w)"

text \<open>
  The value of \<open>main\<close> is \<open>None\<close> in the source. The model returns the outcomes of the
  tasks the executor ran (none on the early return of line 232), which the source drops
  with the iterator of \<open>executor.map\<close>, so that theorems can speak about them.
\<close>

definition main :: "env \<Rightarrow> (exn + unit) list comp" where
  "main e w =
     (let w1 = ensure_csv_file e w in
      case csv_file w1 of
        None \<Rightarrow> (Inl FileNotFoundError, w1)
      | Some content \<Rightarrow>
          (let existing_data = dict_reader (csv_reader e content) in
           case get_repo_urls e explore_page_url w1 of
             (Inl x, w2) \<Rightarrow> (Inl x, w2)
           | (Inr repo_urls, w2) \<Rightarrow>
               if repo_urls = [] then (Inr [], logging INFO NoRepositoryUrlsFound w2)
               else
                 (case executor_map (\<lambda>repo_url row. process_repository e repo_url (PyDict row))
                         repo_urls existing_data w2 of
                    (futures, w3) \<Rightarrow> (Inr futures, logging INFO ScouringCompleted w3))))"

subsection \<open>Notions used to state the properties\<close>

text \<open>The prior records a run would load from the file as it stands.\<close>

definition prior_records :: "env \<Rightarrow> world \<Rightarrow> row_dict list" where
  "prior_records e w =
     (case csv_file w of None \<Rightarrow> [] | Some content \<Rightarrow> dict_reader (csv_reader e content))"

text \<open>The content of a file to which these rows, and nothing else, have been written.\<close>

definition written :: "env \<Rightarrow> string list list \<Rightarrow> string" where
  "written e rows = concat (map (csv_writerow e) rows)"

subsection \<open>A small test bed\<close>

text \<open>
  Concrete libraries and worlds on which the theorems below are exercised. The listing
  page links two repositories; the page of \<open>octo/alpha\<close> has a README permalink whose
  target carries the heading \<open>alpha\<close>, the page of \<open>octo/beta\<close> has none. Any other URL
  is unreachable. The tokenizer splits at blanks, the stopwords are \<open>the\<close> and \<open>and\<close>,
  and both reductions leave a token as it is. The csv side is the csv module on fields
  and files that need no quoting: fields free of commas, quotes and line breaks are
  written separated by commas and ended by CR LF; reading turns CR LF and CR into LF,
  cuts the text into lines and each line at its commas, a blank line giving an empty row.
\<close>

definition alpha_url :: url where
  "alpha_url = ''https://github.com/octo/alpha''"

definition beta_url :: url where
  "beta_url = ''https://github.com/octo/beta''"

definition alpha_readme_url :: url where
  "alpha_readme_url = ''https://github.com/octo/alpha/blob/main/README.md''"

definition alpha_readme :: string where
  "alpha_readme = ''<h1 class=public> alpha </h1>the quick Fox''"

definition ok :: "string \<Rightarrow> exn + response" where
  "ok body = Inr \<lparr>status_code = 200, resp_text = body, resp_content = body\<rparr>"

definition test_net :: "url \<Rightarrow> nat \<Rightarrow> exn + response" where
  "test_net u n =
     (if u = explore_page_url then ok ''listing''
      else if u = alpha_url then ok ''alpha page''
      else if u = beta_url then ok ''beta page''
      else if u = alpha_readme_url then ok alpha_readme
      else Inl RequestException)"

definition split_blanks :: "string \<Rightarrow> string list" where
  "split_blanks s =
     filter (\<lambda>t. t \<noteq> [])
       (foldr (\<lambda>c acc. if c = CHR '' '' then [] # acc
                        else (case acc of [] \<Rightarrow> [[c]] | t # ts \<Rightarrow> (c # t) # ts)) s [[]])"

fun join_comma :: "string list \<Rightarrow> string" where
  "join_comma [] = []"
| "join_comma [t] = t"
| "join_comma (t # ts) = t @ '','' @ join_comma ts"

definition test_writerow :: "string list \<Rightarrow> string" where
  "test_writerow row = join_comma row @ [CHR 0x0D, CHR 0x0A]"

fun universal_newlines :: "string \<Rightarrow> string" where
  "universal_newlines [] = []"
| "universal_newlines [x] = [if x = CHR 0x0D then CHR 0x0A else x]"
| "universal_newlines (x # y # xs) =
     (if x = CHR 0x0D \<and> y = CHR 0x0A then CHR 0x0A # universal_newlines xs
      else if x = CHR 0x0D then CHR 0x0A # universal_newlines (y # xs)
      else x # universal_newlines (y # xs))"

fun split_at :: "char \<Rightarrow> string \<Rightarrow> string list" where
  "split_at c [] = [[]]"
| "split_at c (x # xs) =
     (if x = c then [] # split_at c xs
      else (case split_at c xs of [] \<Rightarrow> [[x]] | t # ts \<Rightarrow> (x # t) # ts))"

definition text_lines :: "string \<Rightarrow> string list" where
  "text_lines s =
     (let pieces = split_at (CHR 0x0A) s in
      if last pieces = [] then butlast pieces else pieces)"

definition test_reader :: "string \<Rightarrow> string list list" where
  "test_reader content =
     map (\<lambda>line. if line = [] then [] else split_at (CHR '','') line)
       (text_lines (universal_newlines content))"

definition test_env :: env where
  "test_env =
     \<lparr>net = test_net,
      select_repo_links = (\<lambda>page. if page = ''listing'' then [''/octo/alpha'', ''/octo/beta''] else []),
      find_readme_permalink =
        (\<lambda>page. if page = ''alpha page'' then Some (Some ''/octo/alpha/blob/main/README.md'')
                 else None),
      find_h1_public = (\<lambda>page. if page = alpha_readme then Some '' alpha '' else None),
      get_text = (\<lambda>page. if page = lower alpha_readme then '' alpha the quick fox'' else page),
      word_tokenize = split_blanks,
      stop_words = [''the'', ''and''],
      lemmatize = (\<lambda>token. token),
      stem = (\<lambda>token. token),
      timestamp = ''2024-01-01 00:00:00'',
      csv_writerow = test_writerow,
      csv_reader = test_reader\<rparr>"

text \<open>The same libraries behind a network that raises on every request.\<close>

definition offline_env :: env where
  "offline_env = test_env\<lparr>net := (\<lambda>u n. Inl RequestException)\<rparr>"

text \<open>
  The repository page of \<open>octo/alpha\<close> answers 503 to its first \<open>k\<close> requests and 200
  from then on.
\<close>

definition flaky_env :: "nat \<Rightarrow> env" where
  "flaky_env k =
     test_env\<lparr>net := (\<lambda>u n. if u = alpha_url \<and> n < k
                             then Inr \<lparr>status_code = 503, resp_text = [], resp_content = []\<rparr>
                             else test_net u n)\<rparr>"

text \<open>The README of \<open>octo/alpha\<close> without its \<open>h1\<close> heading of class \<open>public\<close>.\<close>

definition nameless_env :: env where
  "nameless_env = test_env\<lparr>find_h1_public := (\<lambda>page. None)\<rparr>"

text \<open>The README permalink of \<open>octo/alpha\<close> behind a connection that fails.\<close>

definition broken_readme_env :: env where
  "broken_readme_env =
     test_env\<lparr>net := (\<lambda>u n. if u = alpha_readme_url then Inl RequestException
                             else test_net u n)\<rparr>"

text \<open>
  A world before any request: the file is missing, or holds the rows given, written
  one after the other.
\<close>

definition world_with :: "string list list option \<Rightarrow> world" where
  "world_with f =
     \<lparr>csv_file = map_option (written test_env) f, hits = (\<lambda>u. 0), logged = [], slept = 0\<rparr>"




definition zeta_row :: "string list" where
  "zeta_row = [''2023-12-31 23:59:59'', ''zeta'', ''https://github.com/octo/zeta'', ''zeta text'']"

section \<open>Properties\<close>

subsection \<open>Basic facts\<close>

lemma time_sleep_raises: "time_sleep secs w = (Inl NameError, w)"
  by (simp add: time_sleep_def module_globals_def)

lemma datetime_now_raises: "datetime_now e w = (Inl AttributeError, w)"
  by (simp add: datetime_now_def datetime_module_attrs_def)

lemma readme_handlers_returns: "\<exists>v w'. readme_handlers repo_url r = (Inr v, w')"
  by (cases r) (auto simp: readme_handlers_def split: sum.splits exn.splits option.splits)

lemma get_readme_content_returns:
  "\<exists>v w'. get_readme_content e repo_url retries w = (Inr v, w')"
  by (subst get_readme_content.simps) (rule readme_handlers_returns)

text \<open>Since the sleep raises, the recursive call of line 85 is never reached.\<close>

lemma get_readme_content_unfold:
  "get_readme_content e repo_url retries w =
     readme_handlers repo_url
       (case requests_get e repo_url w of
          (Inl x, w1) \<Rightarrow> (Inl x, w1)
        | (Inr response, w1) \<Rightarrow>
            if status_code response = 200 then fetch_readme e repo_url response w1
            else if retries > 0 then (Inl NameError, w1)
            else (Inr None, logging WARNING (ErrorAccessingRepository repo_url) w1))"
  by (subst get_readme_content.simps) (simp only: time_sleep_raises prod.case sum.case)

lemma get_repo_urls_returns: "\<exists>urls w'. get_repo_urls e page_url w = (Inr urls, w')"
  by (auto simp: get_repo_urls_def split: prod.splits sum.splits option.splits)

subsection \<open>What leaves the output file alone\<close>

lemma requests_get_csv_file: "csv_file (snd (requests_get e u w)) = csv_file w"
  by (simp add: requests_get_def)

lemma logging_csv_file: "csv_file (logging l m w) = csv_file w"
  by (simp add: logging_def)

lemma readme_handlers_csv_file: "csv_file (snd (readme_handlers repo_url (r, w))) = csv_file w"
  by (auto simp: readme_handlers_def logging_def split: sum.splits exn.splits option.splits)

lemma fetch_readme_csv_file: "csv_file (snd (fetch_readme e repo_url response w)) = csv_file w"
  by (auto simp: fetch_readme_def requests_get_def logging_def split: option.splits sum.splits)

lemma get_readme_content_csv_file:
  "csv_file (snd (get_readme_content e repo_url retries w)) = csv_file w"
proof -
  obtain r w1 where g: "requests_get e repo_url w = (r, w1)"
    by (cases "requests_get e repo_url w")
  have w1: "csv_file w1 = csv_file w"
    using requests_get_csv_file [of e repo_url w] g by simp
  show ?thesis
  proof (cases r)
    case (Inl x)
    then show ?thesis
      using g w1 by (simp add: get_readme_content_unfold readme_handlers_csv_file)
  next
    case (Inr response)
    obtain r2 w2 where f: "fetch_readme e repo_url response w1 = (r2, w2)"
      by (cases "fetch_readme e repo_url response w1")
    have "csv_file w2 = csv_file w1"
      using fetch_readme_csv_file [of e repo_url response w1] f by simp
    then show ?thesis
      using g w1 Inr f
      by (simp add: get_readme_content_unfold readme_handlers_csv_file logging_csv_file)
  qed
qed

text \<open>
  No call of \<open>process_repository\<close> reaches line 196: line 189 raises before the record
  is complete.
\<close>

lemma process_repository_csv_file:
  "csv_file (snd (process_repository e repo_url existing_data w)) = csv_file w"
proof -
  obtain v w1 where g: "get_readme_content e repo_url 3 w = (Inr v, w1)"
    using get_readme_content_returns by blast
  have w1: "csv_file w1 = csv_file w"
    using get_readme_content_csv_file [of e repo_url 3 w] g by simp
  show ?thesis
    using g w1
    by (auto simp: process_repository_def record_repository_def datetime_now_raises
          logging_def Let_def split: option.splits sum.splits bool.splits)
qed

lemma run_tasks_csv_file:
  assumes "\<And>x y w. csv_file (snd (fn x y w)) = csv_file w"
  shows "csv_file (snd (run_tasks fn ps w)) = csv_file w"
proof (induction ps arbitrary: w)
  case Nil
  then show ?case by simp
next
  case (Cons p ps)
  obtain x y where p: "p = (x, y)" by (cases p)
  obtain r w1 where f: "fn x y w = (r, w1)" by (cases "fn x y w")
  have "csv_file w1 = csv_file w" using assms [of x y w] f by simp
  moreover have "csv_file (snd (run_tasks fn ps w1)) = csv_file w1" by (rule Cons.IH)
  ultimately show ?case using p f by (auto split: prod.splits)
qed

lemma run_tasks_length: "length (fst (run_tasks fn ps w)) = length ps"
proof (induction ps arbitrary: w)
  case Nil
  then show ?case by simp
next
  case (Cons p ps)
  obtain x y where p: "p = (x, y)" by (cases p)
  obtain r w1 where f: "fn x y w = (r, w1)" by (cases "fn x y w")
  obtain rs w2 where t: "run_tasks fn ps w1 = (rs, w2)" by (cases "run_tasks fn ps w1")
  have "length rs = length ps" using Cons.IH [of w1] t by simp
  then show ?case using p f t by simp
qed

lemma get_repo_urls_csv_file: "csv_file (snd (get_repo_urls e page_url w)) = csv_file w"
  by (auto simp: get_repo_urls_def get_repo_urls_try_def requests_get_def logging_def
        split: prod.splits sum.splits option.splits if_splits)

subsection \<open>The shape of a run\<close>

lemma ensure_csv_file_exists: "\<exists>content. csv_file (ensure_csv_file e w) = Some content"
  by (cases "csv_file w") (simp_all add: ensure_csv_file_def)

lemma ensure_csv_file_cases:
  "csv_file (ensure_csv_file e w) =
     (case csv_file w of None \<Rightarrow> Some (csv_writerow e headers)
      | Some content \<Rightarrow> Some content)"
  by (cases "csv_file w") (simp_all add: ensure_csv_file_def)

lemma ensure_csv_file_hits: "hits (ensure_csv_file e w) = hits w"
  by (simp add: ensure_csv_file_def)

lemma main_unfold:
  assumes "csv_file (ensure_csv_file e w) = Some content"
    and "get_repo_urls e explore_page_url (ensure_csv_file e w) = (Inr repo_urls, w2)"
  shows "main e w =
     (if repo_urls = [] then (Inr [], logging INFO NoRepositoryUrlsFound w2)
      else (Inr (fst (run_tasks (\<lambda>repo_url row. process_repository e repo_url (PyDict row))
                        (zip repo_urls (dict_reader (csv_reader e content))) w2)),
            logging INFO ScouringCompleted
              (snd (run_tasks (\<lambda>repo_url row. process_repository e repo_url (PyDict row))
                        (zip repo_urls (dict_reader (csv_reader e content))) w2))))"
  using assms by (simp add: main_def executor_map_def Let_def split: prod.splits)

lemma main_completes: "\<exists>futures w'. main e w = (Inr futures, w')"
proof -
  obtain content where r: "csv_file (ensure_csv_file e w) = Some content"
    using ensure_csv_file_exists by blast
  obtain repo_urls w2
    where g: "get_repo_urls e explore_page_url (ensure_csv_file e w) = (Inr repo_urls, w2)"
    using get_repo_urls_returns by blast
  show ?thesis by (simp add: main_unfold [OF r g])
qed

lemma main_csv_file: "csv_file (snd (main e w)) = csv_file (ensure_csv_file e w)"
proof -
  obtain content where r: "csv_file (ensure_csv_file e w) = Some content"
    using ensure_csv_file_exists by blast
  obtain repo_urls w2
    where g: "get_repo_urls e explore_page_url (ensure_csv_file e w) = (Inr repo_urls, w2)"
    using get_repo_urls_returns by blast
  have w2: "csv_file w2 = csv_file (ensure_csv_file e w)"
    using get_repo_urls_csv_file [of e explore_page_url "ensure_csv_file e w"] g by simp
  have "csv_file (snd (run_tasks (\<lambda>repo_url row. process_repository e repo_url (PyDict row))
                        (zip repo_urls (dict_reader (csv_reader e content))) w2)) = csv_file w2"
    by (rule run_tasks_csv_file) (rule process_repository_csv_file)
  then show ?thesis using w2 by (simp add: main_unfold [OF r g] logging_csv_file)
qed

subsection \<open>The test bed at work\<close>

lemma test_listing:
  "get_repo_urls test_env explore_page_url w =
     (Inr [alpha_url, beta_url],
      w\<lparr>hits := (hits w)(explore_page_url := Suc (hits w explore_page_url))\<rparr>)"
  by (simp add: get_repo_urls_def get_repo_urls_try_def requests_get_def test_env_def
        test_net_def ok_def base_url_def alpha_url_def beta_url_def)

lemma test_alpha_readme:
  "get_readme_content test_env alpha_url 3 w =
     (Inr (Some alpha_readme),
      w\<lparr>hits := (hits w)(alpha_url := Suc (hits w alpha_url),
                           alpha_readme_url := Suc (hits w alpha_readme_url))\<rparr>)"
  by (simp add: get_readme_content_unfold readme_handlers_def fetch_readme_def
        requests_get_def test_env_def test_net_def ok_def base_url_def alpha_url_def
        beta_url_def alpha_readme_url_def explore_page_url_def)

lemma test_beta_readme:
  "get_readme_content test_env beta_url 3 w =
     (Inr None,
      logging INFO (NoReadmeFound beta_url)
        (w\<lparr>hits := (hits w)(beta_url := Suc (hits w beta_url))\<rparr>))"
  by (simp add: get_readme_content_unfold readme_handlers_def fetch_readme_def
        requests_get_def test_env_def test_net_def ok_def base_url_def alpha_url_def
        beta_url_def explore_page_url_def)

subsection \<open>Requests sent\<close>

lemma requests_get_hits:
  "hits (snd (requests_get e u w)) = (hits w)(u := Suc (hits w u))"
  by (simp add: requests_get_def)

lemma logging_hits: "hits (logging l m w) = hits w"
  by (simp add: logging_def)

lemma readme_handlers_hits: "hits (snd (readme_handlers repo_url (r, w))) = hits w"
  by (auto simp: readme_handlers_def logging_def split: sum.splits exn.splits option.splits)

lemma fetch_readme_hits: "hits w x \<le> hits (snd (fetch_readme e repo_url response w)) x"
  by (auto simp: fetch_readme_def requests_get_def logging_def split: option.splits sum.splits)

lemma get_readme_content_hits:
  "hits w x \<le> hits (snd (get_readme_content e repo_url retries w)) x
   \<and> hits w repo_url < hits (snd (get_readme_content e repo_url retries w)) repo_url"
proof -
  obtain r w1 where g: "requests_get e repo_url w = (r, w1)"
    by (cases "requests_get e repo_url w")
  have w1: "hits w1 = (hits w)(repo_url := Suc (hits w repo_url))"
    using requests_get_hits [of e repo_url w] g by simp
  show ?thesis
  proof (cases r)
    case (Inl x)
    then show ?thesis
      using g w1 by (simp add: get_readme_content_unfold readme_handlers_hits)
  next
    case (Inr response)
    obtain r2 w2 where f: "fetch_readme e repo_url response w1 = (r2, w2)"
      by (cases "fetch_readme e repo_url response w1")
    have "hits w1 x \<le> hits w2 x" and "hits w1 repo_url \<le> hits w2 repo_url"
      using fetch_readme_hits [of w1 _ e repo_url response] f by simp_all
    then show ?thesis
      using g w1 Inr f
      by (auto simp: get_readme_content_unfold readme_handlers_hits logging_hits)
  qed
qed

lemma process_repository_hits_eq:
  "hits (snd (process_repository e repo_url existing_data w)) =
   hits (snd (get_readme_content e repo_url 3 w))"
proof -
  obtain v w1 where g: "get_readme_content e repo_url 3 w = (Inr v, w1)"
    using get_readme_content_returns by blast
  show ?thesis
    using g
    by (auto simp: process_repository_def record_repository_def datetime_now_raises
          logging_def Let_def split: option.splits sum.splits bool.splits)
qed

lemma process_repository_hits:
  "hits w x \<le> hits (snd (process_repository e repo_url existing_data w)) x
   \<and> hits w repo_url < hits (snd (process_repository e repo_url existing_data w)) repo_url"
  by (simp add: process_repository_hits_eq get_readme_content_hits)

lemma run_tasks_hits_mono:
  assumes "\<And>x y w u. hits w u \<le> hits (snd (fn x y w)) u"
  shows "hits w u \<le> hits (snd (run_tasks fn ps w)) u"
proof (induction ps arbitrary: w)
  case Nil
  then show ?case by simp
next
  case (Cons p ps)
  obtain x y where p: "p = (x, y)" by (cases p)
  obtain r w1 where f: "fn x y w = (r, w1)" by (cases "fn x y w")
  obtain rs w2 where t: "run_tasks fn ps w1 = (rs, w2)" by (cases "run_tasks fn ps w1")
  have "hits w u \<le> hits w1 u" using assms [of w u x y] f by simp
  moreover have "hits w1 u \<le> hits w2 u" using Cons.IH [of w1] t by simp
  ultimately show ?case using p f t by simp
qed

lemma run_tasks_hits_each:
  assumes mono: "\<And>x y w u. hits w u \<le> hits (snd (fn x y w)) u"
    and step: "\<And>x y w. hits w x < hits (snd (fn x y w)) x"
    and mem: "(x, y) \<in> set ps"
  shows "hits w x < hits (snd (run_tasks fn ps w)) x"
  using mem
proof (induction ps arbitrary: w)
  case Nil
  then show ?case by simp
next
  case (Cons p ps)
  obtain x' y' where p: "p = (x', y')" by (cases p)
  obtain r w1 where f: "fn x' y' w = (r, w1)" by (cases "fn x' y' w")
  obtain rs w2 where t: "run_tasks fn ps w1 = (rs, w2)" by (cases "run_tasks fn ps w1")
  have a: "hits w x \<le> hits w1 x" using mono [of w x x' y'] f by simp
  have b: "hits w1 x \<le> hits w2 x" using run_tasks_hits_mono [of fn w1 x ps, OF mono] t by simp
  show ?case
  proof (cases "(x, y) = p")
    case True
    then have "hits w x < hits w1 x" using step [of w x' y'] f p by simp
    then show ?thesis using b p f t by simp
  next
    case False
    then have "(x, y) \<in> set ps" using Cons.prems by simp
    then have "hits w1 x < hits w2 x" using Cons.IH [of w1] t by simp
    then show ?thesis using a p f t by simp
  qed
qed

lemma get_repo_urls_hits:
  "hits (snd (get_repo_urls e page_url w)) = (hits w)(page_url := Suc (hits w page_url))"
  by (auto simp: get_repo_urls_def get_repo_urls_try_def requests_get_def logging_def
        split: prod.splits sum.splits option.splits if_splits)

subsection \<open>The test bed's csv side\<close>

lemma lower_readme: "lower alpha_readme = ''<h1 class=public> alpha </h1>the quick fox''"
  by code_simp

lemma read_fresh: "csv_reader test_env (written test_env [headers]) = [headers]"
  by (simp add: test_env_def test_writerow_def test_reader_def written_def headers_def
        text_lines_def)

lemma read_one: "csv_reader test_env (written test_env [headers, zeta_row]) = [headers, zeta_row]"
  by (simp add: test_env_def test_writerow_def test_reader_def written_def headers_def
        zeta_row_def text_lines_def)

lemma read_two: "csv_reader test_env (written test_env [headers, zeta_row, zeta_row]) =
    [headers, zeta_row, zeta_row]"
  by (simp add: test_env_def test_writerow_def test_reader_def written_def headers_def
        zeta_row_def text_lines_def)

lemma nameless_csv: "csv_reader nameless_env = csv_reader test_env"
  "csv_writerow nameless_env = csv_writerow test_env"
  by (simp_all add: nameless_env_def)

lemma written_single: "written e [row] = csv_writerow e row"
  by (simp add: written_def)


subsection \<open>Record Writer and the file across a run\<close>





subsection \<open>Transport failures\<close>

lemma get_repo_urls_transport_failure:
  assumes "net e page_url (hits w page_url) = Inl x"
  shows "fst (get_repo_urls e page_url w) = Inr []"
  using assms by (simp add: get_repo_urls_def get_repo_urls_try_def requests_get_def)

lemma get_readme_content_first_fetch_fails:
  assumes "net e repo_url (hits w repo_url) = Inl x"
  shows "fst (get_readme_content e repo_url retries w) = Inr None"
  using assms
  by (cases x) (simp_all add: get_readme_content_unfold requests_get_def readme_handlers_def)

lemma get_readme_content_permalink_fetch_fails:
  assumes "requests_get e repo_url w = (Inr response, w1)"
    and "status_code response = 200"
    and "find_readme_permalink e (resp_content response) = Some (Some href)"
    and "net e (base_url @ href) (hits w1 (base_url @ href)) = Inl x"
  shows "fst (get_readme_content e repo_url retries w) = Inr None"
  using assms
  by (cases x)
     (simp_all add: get_readme_content_unfold fetch_readme_def readme_handlers_def
        requests_get_def [of e "base_url @ href"])

text \<open>
  C5. Neither the Link Extractor nor the Content Fetcher ever raises: both return a
  value in every world. When \<open>requests.get\<close> raises on the listing page,
  \<open>get_repo_urls\<close> returns the empty list. When it raises on the repository page, or on
  the README permalink after the repository page answered 200, \<open>get_readme_content\<close>
  returns \<open>None\<close>.
\<close>

theorem transport_failures_are_caught:
  "(\<exists>urls w_out. get_repo_urls e page_url w = (Inr urls, w_out))
   \<and> (\<exists>v w_out. get_readme_content e repo_url retries w = (Inr v, w_out))
   \<and> (net e page_url (hits w page_url) = Inl x \<longrightarrow>
         fst (get_repo_urls e page_url w) = Inr [])
   \<and> (net e repo_url (hits w repo_url) = Inl x \<longrightarrow>
         fst (get_readme_content e repo_url retries w) = Inr None)
   \<and> (requests_get e' repo_url' w' = (Inr response, w1) \<and> status_code response = 200
         \<and> find_readme_permalink e' (resp_content response) = Some (Some href)
         \<and> net e' (base_url @ href) (hits w1 (base_url @ href)) = Inl x' \<longrightarrow>
         fst (get_readme_content e' repo_url' retries' w') = Inr None)"
  using get_repo_urls_returns [of e page_url w]
    get_readme_content_returns [of e repo_url retries w]
    get_repo_urls_transport_failure [of e page_url w x]
    get_readme_content_first_fetch_fails [of e repo_url w x retries]
    get_readme_content_permalink_fetch_fails [of e' repo_url' w' response w1 href x' retries']
  by blast

theorem transport_failures_are_caught_witness:
  "net offline_env explore_page_url (hits (world_with None) explore_page_url) = Inl RequestException
   \<and> fst (get_repo_urls offline_env explore_page_url (world_with None)) = Inr []
   \<and> net offline_env alpha_url (hits (world_with None) alpha_url) = Inl RequestException
   \<and> fst (get_readme_content offline_env alpha_url 3 (world_with None)) = Inr None
   \<and> requests_get broken_readme_env alpha_url (world_with None) =
        (Inr \<lparr>status_code = 200, resp_text = ''alpha page'', resp_content = ''alpha page''\<rparr>,
         world_with None\<lparr>hits := (\<lambda>u. 0)(alpha_url := Suc 0)\<rparr>)
   \<and> find_readme_permalink broken_readme_env ''alpha page'' =
        Some (Some ''/octo/alpha/blob/main/README.md'')
   \<and> net broken_readme_env alpha_readme_url 0 = Inl RequestException
   \<and> fst (get_readme_content broken_readme_env alpha_url 3 (world_with None)) = Inr None"
proof -
  let ?w = "world_with None"
  let ?resp = "\<lparr>status_code = 200, resp_text = ''alpha page'', resp_content = ''alpha page''\<rparr>"
  let ?w1 = "?w\<lparr>hits := (\<lambda>u. 0)(alpha_url := Suc 0)\<rparr>"
  let ?href = "''/octo/alpha/blob/main/README.md''"
  have a: "net offline_env explore_page_url (hits ?w explore_page_url) = Inl RequestException"
    and b: "net offline_env alpha_url (hits ?w alpha_url) = Inl RequestException"
    by (simp_all add: offline_env_def)
  have c: "requests_get broken_readme_env alpha_url ?w = (Inr ?resp, ?w1)"
    by (simp add: requests_get_def broken_readme_env_def test_env_def test_net_def ok_def
          world_with_def alpha_url_def alpha_readme_url_def explore_page_url_def)
  have d: "find_readme_permalink broken_readme_env (resp_content ?resp) = Some (Some ?href)"
    by (simp add: broken_readme_env_def test_env_def)
  have u: "base_url @ ?href = alpha_readme_url"
    by (simp add: base_url_def alpha_readme_url_def)
  have f: "net broken_readme_env alpha_readme_url 0 = Inl RequestException"
    by (simp add: broken_readme_env_def)
  have g: "net broken_readme_env (base_url @ ?href) (hits ?w1 (base_url @ ?href)) = Inl RequestException"
    by (simp add: u broken_readme_env_def world_with_def alpha_url_def alpha_readme_url_def)
  note t = transport_failures_are_caught
      [where e = offline_env and page_url = explore_page_url and w = ?w
         and x = RequestException and repo_url = alpha_url and retries = 3
         and e' = broken_readme_env and repo_url' = alpha_url and w' = ?w
         and response = ?resp and ?w1.0 = ?w1 and href = ?href and x' = RequestException
         and retries' = 3]
  have p: "fst (get_repo_urls offline_env explore_page_url ?w) = Inr []"
    using t a by blast
  have q: "fst (get_readme_content offline_env alpha_url 3 ?w) = Inr None"
    using t b by blast
  have "status_code ?resp = 200" by simp
  then have r: "fst (get_readme_content broken_readme_env alpha_url 3 ?w) = Inr None"
    using t c d g by blast
  show ?thesis using a b c d f p q r by simp
qed

subsection \<open>Link Extractor\<close>

text \<open>
  C6. Every URL in the list \<open>get_repo_urls\<close> returns begins with \<open>base_url\<close>: it is
  \<open>base_url\<close> followed by the \<open>href\<close> of an anchor selected on the listing page, which
  answered 200.
\<close>

theorem listed_urls_start_with_base_url:
  assumes "get_repo_urls e page_url w = (r, w_out)"
  shows "\<exists>urls. r = Inr urls
     \<and> (\<forall>u \<in> set urls. prefix base_url u
           \<and> (\<exists>response href. net e page_url (hits w page_url) = Inr response
                 \<and> status_code response = 200
                 \<and> href \<in> set (select_repo_links e (resp_text response))
                 \<and> u = base_url @ href))"
  using assms
  by (auto simp: get_repo_urls_def get_repo_urls_try_def requests_get_def
        split: sum.splits if_splits)

theorem listed_urls_start_with_base_url_witness:
  "get_repo_urls test_env explore_page_url (world_with None) =
     (Inr [alpha_url, beta_url], world_with None\<lparr>hits := (\<lambda>u. 0)(explore_page_url := Suc 0)\<rparr>)
   \<and> prefix base_url alpha_url \<and> prefix base_url beta_url"
proof -
  have g: "get_repo_urls test_env explore_page_url (world_with None) =
     (Inr [alpha_url, beta_url], world_with None\<lparr>hits := (\<lambda>u. 0)(explore_page_url := Suc 0)\<rparr>)"
    by (simp add: test_listing world_with_def)
  show ?thesis
    using listed_urls_start_with_base_url [OF g] g by simp
qed

subsection \<open>Text Normalizer\<close>

lemma filtered_tokens_no_stopword:
  "set (filtered_tokens e content) \<inter> set (stop_words e) = {}"
  by (auto simp: filtered_tokens_def Let_def)

lemma filtered_tokens_set:
  "set (filtered_tokens e content) =
     set (word_tokenize e (get_text e (lower content))) - set (stop_words e)"
  by (auto simp: filtered_tokens_def Let_def)

lemma lower_example: "lower ''the quick Fox and the dog'' = ''the quick fox and the dog''"
  by code_simp

lemma split_blanks_example:
  "split_blanks ''the quick fox and the dog'' = [''the'', ''quick'', ''fox'', ''and'', ''the'', ''dog'']"
  by (simp add: split_blanks_def)

text \<open>
  C9. The tokens handed to the reduction are exactly the tokens of the lowercased,
  markup-free text that are not in the stopword list, and the output tokens are their
  reductions, so every stopword token is removed before reduction. For the input
  \<open>the quick Fox and the dog\<close> in stemming mode: when the tokenizer splits the
  lowercased text into its six words, \<open>the\<close> and \<open>and\<close> are stopwords, and the stemmer
  sends none of \<open>quick\<close>, \<open>fox\<close>, \<open>dog\<close> to \<open>the\<close> or \<open>and\<close> (all three facts hold of
  NLTK), the output tokens contain neither \<open>the\<close> nor \<open>and\<close>: the output is the stems
  of those among \<open>quick\<close>, \<open>fox\<close>, \<open>dog\<close> that are not stopwords, joined by blanks.
\<close>

theorem stopwords_removed_before_reduction:
  "(\<forall>content. set (filtered_tokens e content) =
        set (word_tokenize e (get_text e (lower content))) - set (stop_words e))
   \<and> (\<forall>content mode. processed_tokens e content mode =
        map (if mode then lemmatize e else stem e) (filtered_tokens e content))
   \<and> (word_tokenize e' (get_text e' ''the quick fox and the dog'') =
         [''the'', ''quick'', ''fox'', ''and'', ''the'', ''dog'']
       \<and> ''the'' \<in> set (stop_words e') \<and> ''and'' \<in> set (stop_words e')
       \<and> (\<forall>t \<in> {''quick'', ''fox'', ''dog''}. stem e' t \<noteq> ''the'' \<and> stem e' t \<noteq> ''and'') \<longrightarrow>
         ''the'' \<notin> set (processed_tokens e' ''the quick Fox and the dog'' False)
         \<and> ''and'' \<notin> set (processed_tokens e' ''the quick Fox and the dog'' False)
         \<and> preprocess_content e' ''the quick Fox and the dog'' False =
             join_space (map (stem e')
               (filter (\<lambda>token. token \<notin> set (stop_words e')) [''quick'', ''fox'', ''dog''])))"
proof (intro conjI allI impI)
  fix content
  show "set (filtered_tokens e content) =
        set (word_tokenize e (get_text e (lower content))) - set (stop_words e)"
    by (rule filtered_tokens_set)
next
  fix content mode
  show "processed_tokens e content mode =
        map (if mode then lemmatize e else stem e) (filtered_tokens e content)"
    by (simp add: processed_tokens_def)
next
  assume a: "word_tokenize e' (get_text e' ''the quick fox and the dog'') =
         [''the'', ''quick'', ''fox'', ''and'', ''the'', ''dog'']
       \<and> ''the'' \<in> set (stop_words e') \<and> ''and'' \<in> set (stop_words e')
       \<and> (\<forall>t \<in> {''quick'', ''fox'', ''dog''}. stem e' t \<noteq> ''the'' \<and> stem e' t \<noteq> ''and'')"
  have f: "filtered_tokens e' ''the quick Fox and the dog'' =
      filter (\<lambda>token. token \<notin> set (stop_words e')) [''quick'', ''fox'', ''dog'']"
    using a by (simp add: filtered_tokens_def Let_def lower_example)
  have s: "set (filtered_tokens e' ''the quick Fox and the dog'') \<subseteq> {''quick'', ''fox'', ''dog''}"
    unfolding f by auto
  show "''the'' \<notin> set (processed_tokens e' ''the quick Fox and the dog'' False)"
    using a s by (auto simp: processed_tokens_def)
  show "''and'' \<notin> set (processed_tokens e' ''the quick Fox and the dog'' False)"
    using a s by (auto simp: processed_tokens_def)
  show "preprocess_content e' ''the quick Fox and the dog'' False =
      join_space (map (stem e')
        (filter (\<lambda>token. token \<notin> set (stop_words e')) [''quick'', ''fox'', ''dog'']))"
    by (simp only: preprocess_content_def processed_tokens_def f if_False)
qed

theorem stopwords_removed_before_reduction_witness:
  "word_tokenize test_env (get_text test_env ''the quick fox and the dog'') =
         [''the'', ''quick'', ''fox'', ''and'', ''the'', ''dog'']
   \<and> ''the'' \<in> set (stop_words test_env) \<and> ''and'' \<in> set (stop_words test_env)
   \<and> stem test_env ''quick'' = ''quick'' \<and> stem test_env ''fox'' = ''fox''
   \<and> stem test_env ''dog'' = ''dog''
   \<and> ''the'' \<notin> set (processed_tokens test_env ''the quick Fox and the dog'' False)
   \<and> ''and'' \<notin> set (processed_tokens test_env ''the quick Fox and the dog'' False)
   \<and> preprocess_content test_env ''the quick Fox and the dog'' False = ''quick fox dog''"
proof -
  have g: "get_text test_env ''the quick fox and the dog'' = ''the quick fox and the dog''"
    by (simp add: test_env_def lower_readme)
  have a: "word_tokenize test_env (get_text test_env ''the quick fox and the dog'') =
         [''the'', ''quick'', ''fox'', ''and'', ''the'', ''dog'']"
    unfolding g by (simp add: test_env_def split_blanks_example)
  have b: "''the'' \<in> set (stop_words test_env)" "''and'' \<in> set (stop_words test_env)"
    by (simp_all add: test_env_def)
  have c: "stem test_env ''quick'' = ''quick''" "stem test_env ''fox'' = ''fox''"
    "stem test_env ''dog'' = ''dog''"
    by (simp_all add: test_env_def)
  have d: "\<forall>t \<in> {''quick'', ''fox'', ''dog''}. stem test_env t \<noteq> ''the'' \<and> stem test_env t \<noteq> ''and''"
    by (simp add: c)
  note t = stopwords_removed_before_reduction [where e = test_env and e' = test_env]
  have r: "''the'' \<notin> set (processed_tokens test_env ''the quick Fox and the dog'' False)
         \<and> ''and'' \<notin> set (processed_tokens test_env ''the quick Fox and the dog'' False)
         \<and> preprocess_content test_env ''the quick Fox and the dog'' False =
             join_space (map (stem test_env)
               (filter (\<lambda>token. token \<notin> set (stop_words test_env)) [''quick'', ''fox'', ''dog'']))"
    using t a b d by blast
  have "join_space (map (stem test_env)
               (filter (\<lambda>token. token \<notin> set (stop_words test_env)) [''quick'', ''fox'', ''dog'']))
        = ''quick fox dog''"
    by (simp add: test_env_def)
  then show ?thesis using a b c r by simp
qed

text \<open>
  C10. A text that is its own lowercase, that \<open>get_text\<close> leaves unchanged (no
  markup), whose tokens are no stopwords and are fixed by the reduction of the chosen
  mode, and that is its tokens joined by single blanks, is returned unchanged by the
  normalizer in that mode.
\<close>

theorem normalizer_fixes_normalized_text:
  assumes "lower content = content"
    and "get_text e content = content"
    and "\<forall>token \<in> set (word_tokenize e content). token \<notin> set (stop_words e)"
    and "\<forall>token \<in> set (word_tokenize e content).
           (if custom_processing then lemmatize e token else stem e token) = token"
    and "join_space (word_tokenize e content) = content"
  shows "preprocess_content e content custom_processing = content"
proof -
  have f: "filtered_tokens e content = word_tokenize e content"
    using assms(1-3) by (simp add: filtered_tokens_def Let_def)
  have "processed_tokens e content custom_processing = word_tokenize e content"
    using assms(4) by (cases custom_processing) (simp_all add: processed_tokens_def f map_idI)
  then show ?thesis
    using assms(5) by (simp add: preprocess_content_def)
qed

theorem normalizer_fixes_normalized_text_witness:
  "lower ''quick fox dog'' = ''quick fox dog''
   \<and> get_text test_env ''quick fox dog'' = ''quick fox dog''
   \<and> word_tokenize test_env ''quick fox dog'' = [''quick'', ''fox'', ''dog'']
   \<and> join_space (word_tokenize test_env ''quick fox dog'') = ''quick fox dog''
   \<and> preprocess_content test_env ''quick fox dog'' True = ''quick fox dog''
   \<and> preprocess_content test_env ''quick fox dog'' False = ''quick fox dog''"
proof -
  have a: "lower ''quick fox dog'' = ''quick fox dog''"
    by code_simp
  have b: "get_text test_env ''quick fox dog'' = ''quick fox dog''"
    by (simp add: test_env_def lower_readme)
  have t: "word_tokenize test_env ''quick fox dog'' = [''quick'', ''fox'', ''dog'']"
    by (simp add: test_env_def split_blanks_def)
  have c: "\<forall>token \<in> set (word_tokenize test_env ''quick fox dog''). token \<notin> set (stop_words test_env)"
    unfolding t by (simp add: test_env_def)
  have d: "\<forall>token \<in> set (word_tokenize test_env ''quick fox dog'').
           (if mode then lemmatize test_env token else stem test_env token) = token" for mode
    by (simp add: test_env_def)
  have j: "join_space (word_tokenize test_env ''quick fox dog'') = ''quick fox dog''"
    unfolding t by simp
  show ?thesis
    using normalizer_fixes_normalized_text [OF a b c d [of True] j]
      normalizer_fixes_normalized_text [OF a b c d [of False] j] a b t j
    by simp
qed

subsection \<open>The retry budget\<close>

text \<open>A non-200 answer to the first request ends the fetch, whatever the budget.\<close>

lemma get_readme_content_no_retry:
  assumes "net e repo_url (hits w repo_url) = Inr response"
    and "status_code response \<noteq> 200"
  shows "fst (get_readme_content e repo_url retries w) = Inr None
     \<and> hits (snd (get_readme_content e repo_url retries w)) =
         (hits w)(repo_url := Suc (hits w repo_url))
     \<and> slept (snd (get_readme_content e repo_url retries w)) = slept w"
  using assms
  by (simp add: get_readme_content_unfold requests_get_def readme_handlers_def logging_def)

lemma flaky_first_answer:
  "net (flaky_env 1) alpha_url (hits (world_with None) alpha_url) =
     Inr \<lparr>status_code = 503, resp_text = [], resp_content = []\<rparr>"
  by (simp add: flaky_env_def world_with_def)

text \<open>
  C3, at the input where the claim fails. The repository page answers 503 once and 200
  afterwards, its README permalink is present and its target answers 200, and the budget
  is 3, so one failure is within the budget. The Content Fetcher returns \<open>None\<close>: after
  the 503 it sends no second request and does not pause, because \<open>time.sleep\<close> at line
  84 raises \<open>NameError\<close> (the module never imports \<open>time\<close>), which the handler of line
  92 logs and turns into \<open>None\<close>. Without any failure the README text is returned.
\<close>

theorem retry_budget_is_never_used:
  "fst (get_readme_content (flaky_env 1) alpha_url 3 (world_with None)) = Inr None
   \<and> hits (snd (get_readme_content (flaky_env 1) alpha_url 3 (world_with None))) alpha_url = 1
   \<and> slept (snd (get_readme_content (flaky_env 1) alpha_url 3 (world_with None))) = 0
   \<and> logged (snd (get_readme_content (flaky_env 1) alpha_url 3 (world_with None))) =
        [(ERROR, ErrorProcessingRepository alpha_url NameError)]
   \<and> fst (get_readme_content (flaky_env 0) alpha_url 3 (world_with None)) =
        Inr (Some alpha_readme)"
proof -
  have a: "fst (get_readme_content (flaky_env 1) alpha_url 3 (world_with None)) = Inr None
     \<and> hits (snd (get_readme_content (flaky_env 1) alpha_url 3 (world_with None))) alpha_url = 1
     \<and> slept (snd (get_readme_content (flaky_env 1) alpha_url 3 (world_with None))) = 0"
    using get_readme_content_no_retry [OF flaky_first_answer, of 3]
    by (simp add: world_with_def)
  have b: "logged (snd (get_readme_content (flaky_env 1) alpha_url 3 (world_with None))) =
        [(ERROR, ErrorProcessingRepository alpha_url NameError)]"
    by (simp add: get_readme_content_unfold requests_get_def readme_handlers_def logging_def
          flaky_env_def world_with_def)
  have c: "fst (get_readme_content (flaky_env 0) alpha_url 3 (world_with None)) =
        Inr (Some alpha_readme)"
    by (simp add: get_readme_content_unfold readme_handlers_def fetch_readme_def
        requests_get_def flaky_env_def test_env_def test_net_def ok_def base_url_def
        alpha_url_def beta_url_def alpha_readme_url_def explore_page_url_def world_with_def)
  show ?thesis using a b c by simp
qed

subsection \<open>What the executor is handed\<close>

lemma zeta_row_filled: "zeta_row \<noteq> []"
  by (simp add: zeta_row_def)

lemma read_header_line: "csv_reader test_env (csv_writerow test_env headers) = [headers]"
  using read_fresh by (simp add: written_single)

text \<open>
  C4. Line 236 gives \<open>executor.map\<close> the list of prior records as a second iterable, so
  the tasks of a run are the calls of \<open>process_repository\<close> on the pairs of
  \<open>zip(repo_urls, existing_data)\<close>: the i-th URL with the i-th prior record alone. Their
  number is the smaller of the two lengths, hence at most the number of prior records.
  When there is no prior record, no task is run and no URL besides the listing page is
  requested. That is so for a run that had to create the file, since the file then
  holds the header line alone, which \<open>csv.reader\<close> reads back as the header row.
\<close>

theorem tasks_paired_with_prior_records:
  assumes "main e w = (r, w')"
    and "get_repo_urls e explore_page_url (ensure_csv_file e w) = (Inr repo_urls, w2)"
  shows "\<exists>futures. r = Inr futures
      \<and> futures = fst (run_tasks (\<lambda>repo_url row. process_repository e repo_url (PyDict row))
                          (zip repo_urls (prior_records e (ensure_csv_file e w))) w2)
      \<and> length futures = min (length repo_urls) (length (prior_records e (ensure_csv_file e w)))
      \<and> length futures \<le> length (prior_records e (ensure_csv_file e w))
      \<and> (prior_records e (ensure_csv_file e w) = [] \<longrightarrow>
            futures = [] \<and> (\<forall>u. u \<noteq> explore_page_url \<longrightarrow> hits w' u = hits w u))
      \<and> (csv_file w = None \<and> csv_reader e (csv_writerow e headers) = [headers] \<longrightarrow>
            futures = [] \<and> (\<forall>u. u \<noteq> explore_page_url \<longrightarrow> hits w' u = hits w u))"
proof -
  let ?fn = "\<lambda>repo_url row. process_repository e repo_url (PyDict row)"
  obtain content where content: "csv_file (ensure_csv_file e w) = Some content"
    using ensure_csv_file_exists by blast
  have prior: "prior_records e (ensure_csv_file e w) = dict_reader (csv_reader e content)"
    using content by (simp add: prior_records_def)
  let ?ps = "zip repo_urls (dict_reader (csv_reader e content))"
  have m: "main e w =
     (if repo_urls = [] then (Inr [], logging INFO NoRepositoryUrlsFound w2)
      else (Inr (fst (run_tasks ?fn ?ps w2)),
            logging INFO ScouringCompleted (snd (run_tasks ?fn ?ps w2))))"
    by (rule main_unfold [OF content assms(2)])
  have r: "r = Inr (fst (run_tasks ?fn ?ps w2))"
    using m assms(1) by (cases "repo_urls = []") simp_all
  have len: "length (fst (run_tasks ?fn ?ps w2)) =
      min (length repo_urls) (length (dict_reader (csv_reader e content)))"
    by (simp add: run_tasks_length)
  have none: "fst (run_tasks ?fn ?ps w2) = []
      \<and> (\<forall>u. u \<noteq> explore_page_url \<longrightarrow> hits w' u = hits w u)"
    if empty: "dict_reader (csv_reader e content) = []"
  proof -
    have ps: "run_tasks ?fn ?ps w2 = ([], w2)" using empty by simp
    have w2: "hits w2 = (hits w)(explore_page_url := Suc (hits w explore_page_url))"
      using get_repo_urls_hits [of e explore_page_url "ensure_csv_file e w"] assms(2)
      by (simp add: ensure_csv_file_hits)
    have "hits w' = hits w2"
      using m assms(1) ps by (cases "repo_urls = []") (auto simp: logging_hits)
    then show ?thesis using ps w2 by simp
  qed
  have fresh: "dict_reader (csv_reader e content) = []"
    if "csv_file w = None \<and> csv_reader e (csv_writerow e headers) = [headers]"
  proof -
    have "content = csv_writerow e headers"
      using content that by (simp add: ensure_csv_file_cases)
    then show ?thesis using that by simp
  qed
  show ?thesis
    using r len none fresh prior by simp
qed

theorem tasks_paired_with_prior_records_witness:
  "csv_file (world_with None) = None
   \<and> csv_reader test_env (csv_writerow test_env headers) = [headers]
   \<and> prior_records test_env (ensure_csv_file test_env (world_with None)) = []
   \<and> fst (main test_env (world_with None)) = Inr []
   \<and> hits (snd (main test_env (world_with None))) alpha_url = 0
   \<and> (\<exists>futures. fst (main test_env (world_with (Some [headers, zeta_row]))) = Inr futures
         \<and> length futures = 1)"
proof -
  let ?w = "world_with None"
  have m: "main test_env ?w = (fst (main test_env ?w), snd (main test_env ?w))" by simp
  let ?v = "world_with (Some [headers, zeta_row])"
  have n: "main test_env ?v = (fst (main test_env ?v), snd (main test_env ?v))" by simp
  have a: "alpha_url \<noteq> explore_page_url"
    by (simp add: alpha_url_def explore_page_url_def)
  have f: "csv_file ?w = None" by (simp add: world_with_def)
  have p: "prior_records test_env (ensure_csv_file test_env ?w) = []"
    by (simp add: prior_records_def ensure_csv_file_def world_with_def read_header_line)
  have q: "length (prior_records test_env (ensure_csv_file test_env ?v)) = 1"
    by (simp add: prior_records_def ensure_csv_file_def world_with_def read_one zeta_row_filled)
  have h: "hits ?w alpha_url = 0" by (simp add: world_with_def)
  show ?thesis
    using tasks_paired_with_prior_records [OF m test_listing]
      tasks_paired_with_prior_records [OF n test_listing] a f p q h read_header_line
    by simp
qed

subsection \<open>Runs of the orchestrator on the test bed\<close>

lemma any_duplicate_dict: "d \<noteq> [] \<Longrightarrow> any_duplicate repo_name (iter (PyDict d)) = Inl TypeError"
  by (cases d) (auto split: prod.splits)

lemma strip_alpha: "strip '' alpha '' = ''alpha''"
  by (simp add: strip_def is_space_def)

lemma h1_alpha: "find_h1_public test_env alpha_readme = Some '' alpha ''" "alpha_readme \<noteq> []"
  by (simp_all add: test_env_def alpha_readme_def)

lemma test_alpha_dict:
  "d \<noteq> [] \<Longrightarrow> process_repository test_env alpha_url (PyDict d) w =
     (Inl TypeError,
      w\<lparr>hits := (hits w)(alpha_url := Suc (hits w alpha_url),
                           alpha_readme_url := Suc (hits w alpha_readme_url))\<rparr>)"
  by (simp add: process_repository_def test_alpha_readme h1_alpha any_duplicate_dict Let_def
        del: iter.simps)

lemma test_alpha_list:
  "process_repository test_env alpha_url (PyList []) w =
     (Inl AttributeError,
      w\<lparr>hits := (hits w)(alpha_url := Suc (hits w alpha_url),
                           alpha_readme_url := Suc (hits w alpha_readme_url))\<rparr>)"
  by (simp add: process_repository_def test_alpha_readme h1_alpha record_repository_def
        datetime_now_raises Let_def)

lemma test_beta:
  "process_repository test_env beta_url existing_data w =
     (Inr (),
      logging INFO (NoReadmeFound beta_url)
        (w\<lparr>hits := (hits w)(beta_url := Suc (hits w beta_url))\<rparr>))"
  by (simp add: process_repository_def test_beta_readme)

lemma zeta_dict: "dict_reader_row headers zeta_row \<noteq> []"
  by (simp add: dict_reader_row_def headers_def zeta_row_def)

lemma rows_one: "csv_file (ensure_csv_file e (world_with (Some [headers, zeta_row]))) =
    Some (written test_env [headers, zeta_row])"
  by (simp add: ensure_csv_file_def world_with_def)

lemma rows_two: "csv_file (ensure_csv_file e (world_with (Some [headers, zeta_row, zeta_row]))) =
    Some (written test_env [headers, zeta_row, zeta_row])"
  by (simp add: ensure_csv_file_def world_with_def)

lemma rows_fresh: "csv_file (ensure_csv_file test_env (world_with None)) =
    Some (written test_env [headers])"
  by (simp add: ensure_csv_file_def world_with_def written_single)

lemma beta_not_listing: "beta_url \<noteq> explore_page_url" "beta_url \<noteq> alpha_url"
  "beta_url \<noteq> alpha_readme_url"
  by (simp_all add: beta_url_def explore_page_url_def alpha_url_def alpha_readme_url_def)

text \<open>
  C2, at the input where the claim fails. The listing page yields two URLs and the
  file holds one prior record. The run dispatches the first URL only: the second is
  never requested. The duplicate check of the one task that runs does not compare the
  name with the prior records: it is handed the single row dictionary paired with its
  URL, iterates over that dictionary's keys and raises \<open>TypeError\<close>, where the check
  against the list of prior records would have answered that \<open>alpha\<close> is new.
\<close>

theorem second_url_is_never_dispatched:
  "fst (get_repo_urls test_env explore_page_url
          (ensure_csv_file test_env (world_with (Some [headers, zeta_row])))) =
     Inr [alpha_url, beta_url]
   \<and> length (prior_records test_env (world_with (Some [headers, zeta_row]))) = 1
   \<and> fst (main test_env (world_with (Some [headers, zeta_row]))) = Inr [Inl TypeError]
   \<and> hits (snd (main test_env (world_with (Some [headers, zeta_row])))) beta_url = 0
   \<and> any_duplicate ''alpha'' (iter (PyDict (dict_reader_row headers zeta_row))) = Inl TypeError
   \<and> any_duplicate ''alpha''
        (iter (PyList (prior_records test_env (world_with (Some [headers, zeta_row]))))) =
       Inr False"
proof -
  let ?w = "world_with (Some [headers, zeta_row])"
  have a: "fst (get_repo_urls test_env explore_page_url (ensure_csv_file test_env ?w)) =
      Inr [alpha_url, beta_url]"
    by (simp add: test_listing)
  have p: "prior_records test_env ?w = [dict_reader_row headers zeta_row]"
    by (simp add: prior_records_def world_with_def read_one zeta_row_filled)
  have b: "length (prior_records test_env ?w) = 1"
    by (simp add: p)
  have c: "fst (main test_env ?w) = Inr [Inl TypeError]"
    by (subst main_unfold [OF rows_one test_listing])
       (simp add: read_one zeta_row_filled test_alpha_dict zeta_dict)
  have d: "hits (snd (main test_env ?w)) beta_url = 0"
    by (subst main_unfold [OF rows_one test_listing])
       (simp add: read_one zeta_row_filled test_alpha_dict zeta_dict logging_def beta_not_listing
          ensure_csv_file_def world_with_def)
  have f: "any_duplicate ''alpha'' (iter (PyDict (dict_reader_row headers zeta_row))) = Inl TypeError"
    by (rule any_duplicate_dict [OF zeta_dict])
  have g: "any_duplicate ''alpha'' (iter (PyList (prior_records test_env ?w))) = Inr False"
    unfolding p by (simp add: dict_reader_row_def headers_def zeta_row_def)
  show ?thesis using a b c d f g by simp
qed

text \<open>
  C1, at the input where the claim fails. The listing page yields the URLs of
  \<open>octo/alpha\<close>, whose page has a README permalink, and of \<open>octo/beta\<close>, whose page has
  none. A run on a missing file runs no task and leaves the header row alone in the
  file; a run on a file with two prior records runs both tasks, the first of which
  raises \<open>TypeError\<close>, and leaves the file as it was. In neither run does a row for
  \<open>octo/alpha\<close> appear. Called with a list of prior records, as its docstring asks,
  \<open>process_repository\<close> raises \<open>AttributeError\<close> at line 189 before it writes.
\<close>

theorem run_appends_no_row:
  "fst (get_repo_urls test_env explore_page_url (ensure_csv_file test_env (world_with None))) =
     Inr [alpha_url, beta_url]
   \<and> fst (get_readme_content test_env alpha_url 3 (world_with (Some [headers]))) =
       Inr (Some alpha_readme)
   \<and> fst (get_readme_content test_env beta_url 3 (world_with (Some [headers]))) = Inr None
   \<and> fst (main test_env (world_with None)) = Inr []
   \<and> csv_file (snd (main test_env (world_with None))) = Some (written test_env [headers])
   \<and> csv_reader test_env (written test_env [headers]) = [headers]
   \<and> fst (main test_env (world_with (Some [headers, zeta_row, zeta_row]))) =
       Inr [Inl TypeError, Inr ()]
   \<and> csv_file (snd (main test_env (world_with (Some [headers, zeta_row, zeta_row])))) =
       Some (written test_env [headers, zeta_row, zeta_row])
   \<and> csv_reader test_env (written test_env [headers, zeta_row, zeta_row]) =
       [headers, zeta_row, zeta_row]
   \<and> process_repository test_env alpha_url (PyList []) (world_with (Some [headers])) =
       (Inl AttributeError,
        world_with (Some [headers])
          \<lparr>hits := (\<lambda>u. 0)(alpha_url := Suc 0, alpha_readme_url := Suc 0)\<rparr>)"
proof -
  let ?w = "world_with None"
  let ?v = "world_with (Some [headers, zeta_row, zeta_row])"
  have a: "fst (get_repo_urls test_env explore_page_url (ensure_csv_file test_env ?w)) =
      Inr [alpha_url, beta_url]"
    by (simp add: test_listing)
  have b: "fst (get_readme_content test_env alpha_url 3 (world_with (Some [headers]))) =
       Inr (Some alpha_readme)"
    by (simp add: test_alpha_readme)
  have c: "fst (get_readme_content test_env beta_url 3 (world_with (Some [headers]))) = Inr None"
    by (simp add: test_beta_readme)
  have d: "fst (main test_env ?w) = Inr []"
    by (subst main_unfold [OF rows_fresh test_listing]) (simp add: read_fresh)
  have f: "csv_file (snd (main test_env ?w)) = Some (written test_env [headers])"
    by (simp add: main_csv_file rows_fresh)
  have g: "fst (main test_env ?v) = Inr [Inl TypeError, Inr ()]"
    by (subst main_unfold [OF rows_two test_listing])
       (simp add: read_two zeta_row_filled test_alpha_dict zeta_dict test_beta)
  have h: "csv_file (snd (main test_env ?v)) = Some (written test_env [headers, zeta_row, zeta_row])"
    by (simp add: main_csv_file rows_two)
  have i: "process_repository test_env alpha_url (PyList []) (world_with (Some [headers])) =
       (Inl AttributeError,
        world_with (Some [headers])
          \<lparr>hits := (\<lambda>u. 0)(alpha_url := Suc 0, alpha_readme_url := Suc 0)\<rparr>)"
    by (simp add: test_alpha_list world_with_def)
  show ?thesis using a b c d f g h i read_fresh read_two by simp
qed

subsection \<open>A task that faults\<close>

lemma process_repository_missing_name:
  assumes "get_readme_content e repo_url 3 w = (Inr (Some readme_content), w1)"
    and "readme_content \<noteq> []"
    and "find_h1_public e readme_content = None"
  shows "process_repository e repo_url existing_data w = (Inl AttributeError, w1)"
  using assms by (simp add: process_repository_def)

lemma nameless_listing:
  "get_repo_urls nameless_env explore_page_url w =
     (Inr [alpha_url, beta_url],
      w\<lparr>hits := (hits w)(explore_page_url := Suc (hits w explore_page_url))\<rparr>)"
  by (simp add: get_repo_urls_def get_repo_urls_try_def requests_get_def nameless_env_def
        test_env_def test_net_def ok_def base_url_def alpha_url_def beta_url_def)

lemma nameless_alpha_readme:
  "get_readme_content nameless_env alpha_url 3 w =
     (Inr (Some alpha_readme),
      w\<lparr>hits := (hits w)(alpha_url := Suc (hits w alpha_url),
                           alpha_readme_url := Suc (hits w alpha_readme_url))\<rparr>)"
  by (simp add: get_readme_content_unfold readme_handlers_def fetch_readme_def
        requests_get_def nameless_env_def test_env_def test_net_def ok_def base_url_def
        alpha_url_def beta_url_def alpha_readme_url_def explore_page_url_def)

lemma nameless_alpha:
  "process_repository nameless_env alpha_url existing_data w =
     (Inl AttributeError,
      w\<lparr>hits := (hits w)(alpha_url := Suc (hits w alpha_url),
                           alpha_readme_url := Suc (hits w alpha_readme_url))\<rparr>)"
  by (rule process_repository_missing_name [OF nameless_alpha_readme])
     (simp_all add: alpha_readme_def nameless_env_def)

text \<open>
  C7, at the input where the claim fails. The listing page yields two URLs and the file
  holds one prior record; the README of the first repository, \<open>octo/alpha\<close>, has no \<open>h1\<close>
  element of class \<open>public\<close>. Its task raises \<open>AttributeError\<close> (from \<open>.text\<close> of \<open>None\<close> at
  line 177, as a call with the list of prior records does too), no row is written, and
  \<open>main\<close> returns normally with the exception kept in the future of the task. The
  remaining URL, that of \<open>octo/beta\<close>, is not processed: it is never requested, since
  the executor was handed a single task.
\<close>

theorem fault_leaves_second_url_unprocessed:
  "fst (get_repo_urls nameless_env explore_page_url
          (ensure_csv_file nameless_env (world_with (Some [headers, zeta_row])))) =
     Inr [alpha_url, beta_url]
   \<and> fst (get_readme_content nameless_env alpha_url 3 (world_with (Some [headers, zeta_row]))) =
       Inr (Some alpha_readme)
   \<and> find_h1_public nameless_env alpha_readme = None
   \<and> fst (process_repository nameless_env alpha_url
            (PyList (prior_records nameless_env (world_with (Some [headers, zeta_row]))))
            (world_with (Some [headers, zeta_row]))) = Inl AttributeError
   \<and> fst (main nameless_env (world_with (Some [headers, zeta_row]))) = Inr [Inl AttributeError]
   \<and> csv_file (snd (main nameless_env (world_with (Some [headers, zeta_row])))) =
       Some (written test_env [headers, zeta_row])
   \<and> hits (snd (main nameless_env (world_with (Some [headers, zeta_row])))) alpha_url = 1
   \<and> hits (snd (main nameless_env (world_with (Some [headers, zeta_row])))) beta_url = 0"
proof -
  let ?w = "world_with (Some [headers, zeta_row])"
  have a: "fst (get_repo_urls nameless_env explore_page_url (ensure_csv_file nameless_env ?w)) =
      Inr [alpha_url, beta_url]"
    by (simp add: nameless_listing)
  have b: "fst (get_readme_content nameless_env alpha_url 3 ?w) = Inr (Some alpha_readme)"
    by (simp add: nameless_alpha_readme)
  have c: "find_h1_public nameless_env alpha_readme = None"
    by (simp add: nameless_env_def)
  have d: "fst (process_repository nameless_env alpha_url
            (PyList (prior_records nameless_env ?w)) ?w) = Inl AttributeError"
    by (simp add: nameless_alpha)
  have r: "csv_reader nameless_env (written test_env [headers, zeta_row]) = [headers, zeta_row]"
    by (simp add: nameless_csv read_one)
  have m: "fst (main nameless_env ?w) = Inr [Inl AttributeError]"
    by (subst main_unfold [OF rows_one nameless_listing])
       (simp add: r zeta_row_filled nameless_alpha)
  have f: "csv_file (snd (main nameless_env ?w)) = Some (written test_env [headers, zeta_row])"
    by (simp add: main_csv_file rows_one)
  have ne: "alpha_url \<noteq> explore_page_url" "alpha_url \<noteq> alpha_readme_url"
    by (simp_all add: alpha_url_def explore_page_url_def alpha_readme_url_def)
  have g: "hits (snd (main nameless_env ?w)) alpha_url = 1"
    by (subst main_unfold [OF rows_one nameless_listing])
       (simp add: r zeta_row_filled nameless_alpha logging_def ne ensure_csv_file_def
          world_with_def)
  have h: "hits (snd (main nameless_env ?w)) beta_url = 0"
    by (subst main_unfold [OF rows_one nameless_listing])
       (simp add: r zeta_row_filled nameless_alpha logging_def beta_not_listing
          ensure_csv_file_def world_with_def)
  show ?thesis using a b c d m f g h by simp
qed

end
